theory Spec2Isabelle
  imports Main
begin

section \<open>The Dyson account session of \<^verbatim>\<open>libpurecoollink/dyson.py\<close>\<close>

text \<open>
  The module defines one class, \<^verbatim>\<open>DysonAccount\<close>, with a constructor and the methods
  \<^verbatim>\<open>use_authentication_token\<close>, \<^verbatim>\<open>login\<close> and \<^verbatim>\<open>devices\<close>. The methods talk to three
  collaborators: the HTTP library (\<^verbatim>\<open>requests.post\<close>, \<^verbatim>\<open>requests.get\<close>), the terminal
  (\<^verbatim>\<open>input\<close>) and the device classes with their classification predicates. The
  collaborators are parameters of the model; every call made to them is written to a
  trace, and every exception of the Python code is a value of the result.
\<close>

subsection \<open>Values decoded from JSON\<close>

text \<open>
  \<^verbatim>\<open>response.json()\<close> yields \<^verbatim>\<open>None\<close>, a \<^verbatim>\<open>bool\<close>, a number, a \<^verbatim>\<open>str\<close>, a \<^verbatim>\<open>list\<close> or a
  \<^verbatim>\<open>dict\<close> with \<^verbatim>\<open>str\<close> keys. A \<^verbatim>\<open>dict\<close> is carried as the list of its items in iteration
  order. The code never inspects a number, so its payload is an integer.
\<close>

datatype json =
    JNull
  | JBool bool
  | JNum int
  | JStr string
  | JArr "json list"
  | JObj "(string \<times> json) list"

datatype exn =
    KeyError string
  | TypeError
  | NameError string
  | JSONDecodeError
  | RequestException
  | EOFError
  | DysonNotLoggedException

text \<open>\<^verbatim>\<open>obj[key]\<close> for a \<^verbatim>\<open>str\<close> key: only a \<^verbatim>\<open>dict\<close> accepts it, and raises
  \<^verbatim>\<open>KeyError\<close> when the key is absent.\<close>

definition subscript :: "json \<Rightarrow> string \<Rightarrow> exn + json" where
  "subscript obj key =
     (case obj of
        JObj items \<Rightarrow>
          (case map_of items key of
             None \<Rightarrow> Inl (KeyError key)
           | Some v \<Rightarrow> Inr v)
      | _ \<Rightarrow> Inl TypeError)"

text \<open>\<^verbatim>\<open>sub in s\<close> on two \<^verbatim>\<open>str\<close>: the substring test.\<close>

fun is_substring :: "string \<Rightarrow> string \<Rightarrow> bool" where
  "is_substring sub [] = (sub = [])"
| "is_substring sub (c # cs) = (take (length sub) (c # cs) = sub \<or> is_substring sub cs)"

text \<open>\<^verbatim>\<open>key in obj\<close> for a \<^verbatim>\<open>str\<close> key: key membership in a \<^verbatim>\<open>dict\<close>, element
  membership in a \<^verbatim>\<open>list\<close>, the substring test in a \<^verbatim>\<open>str\<close>; the other values are not
  iterable.\<close>

definition contains :: "string \<Rightarrow> json \<Rightarrow> exn + bool" where
  "contains key obj =
     (case obj of
        JObj items \<Rightarrow> Inr (key \<in> set (map fst items))
      | JArr xs \<Rightarrow> Inr (JStr key \<in> set xs)
      | JStr s \<Rightarrow> Inr (is_substring key s)
      | _ \<Rightarrow> Inl TypeError)"

text \<open>\<^verbatim>\<open>"literal" + v\<close>: defined on a \<^verbatim>\<open>str\<close> only.\<close>

definition str_add :: "string \<Rightarrow> json \<Rightarrow> exn + string" where
  "str_add lit v = (case v of JStr s \<Rightarrow> Inr (lit @ s) | _ \<Rightarrow> Inl TypeError)"

text \<open>\<^verbatim>\<open>for x in obj\<close>: the elements of a \<^verbatim>\<open>list\<close>, the keys of a \<^verbatim>\<open>dict\<close>, the
  characters of a \<^verbatim>\<open>str\<close>.\<close>

definition iterate :: "json \<Rightarrow> exn + json list" where
  "iterate obj =
     (case obj of
        JArr xs \<Rightarrow> Inr xs
      | JObj items \<Rightarrow> Inr (map (\<lambda>kv. JStr (fst kv)) items)
      | JStr s \<Rightarrow> Inr (map (\<lambda>c. JStr [c]) s)
      | _ \<Rightarrow> Inl TypeError)"

subsection \<open>Collaborators and traces\<close>

datatype http_method = GET | POST

record request =
  verb :: http_method
  url :: string
  json_body :: "json option"
  req_headers :: "string \<rightharpoonup> string"

text \<open>A response as far as the code reads it: \<^verbatim>\<open>status_code\<close> and the result of
  \<^verbatim>\<open>.json()\<close>, which raises on a body that is not JSON.\<close>

record response =
  status_code :: int
  json_result :: "exn + json"

datatype event = Http request | Input string

text \<open>The world outside: what \<^verbatim>\<open>requests.post\<close>/\<^verbatim>\<open>requests.get\<close> answer (or raise)
  to a request, and what \<^verbatim>\<open>input\<close> returns (or raises) for a prompt.\<close>

record env =
  http :: "request \<Rightarrow> exn + response"
  stdin :: "string \<Rightarrow> exn + string"

subsection \<open>The session\<close>

record account =
  email :: string
  password :: string
  country :: string
  logged :: bool
  headers :: "string \<rightharpoonup> string"

text \<open>The result of a method call: the value returned or the exception raised, the
  session afterwards, and the calls made to the collaborators, in order.\<close>

record 'a run =
  outcome :: "exn + 'a"
  after :: account
  trace :: "event list"

definition raise :: "exn \<Rightarrow> account \<Rightarrow> event list \<Rightarrow> 'a run" where
  "raise e s tr = \<lparr>outcome = Inl e, after = s, trace = tr\<rparr>"

definition return :: "'a \<Rightarrow> account \<Rightarrow> event list \<Rightarrow> 'a run" where
  "return v s tr = \<lparr>outcome = Inr v, after = s, trace = tr\<rparr>"

definition DYSON_API_URL :: string where
  "DYSON_API_URL = ''appapi.cp.dyson.com''"

text \<open>\<^verbatim>\<open>DysonAccount.__init__\<close> (lines 23--37).\<close>

definition DysonAccount_init :: "string \<Rightarrow> string \<Rightarrow> string \<Rightarrow> account" where
  "DysonAccount_init email_arg password_arg country_arg =
     \<lparr>email = email_arg,
      password = password_arg,
      country = country_arg,
      logged = False,
      headers =
        [''Content-Type'' \<mapsto> ''application/json'',
         ''User-Agent'' \<mapsto>
           ''Dalvik/2.1.0 (Linux; U; Android 12; sdk_gphone64_x86_64 Build/S2B2.211203.006)'']\<rparr>"

text \<open>\<^verbatim>\<open>use_authentication_token\<close> (lines 39--42): the header first, the flag second.\<close>

definition use_authentication_token :: "account \<Rightarrow> string \<Rightarrow> account" where
  "use_authentication_token s authentication_token =
     (s\<lparr>headers := (headers s)(''Authorization'' \<mapsto> ''Bearer '' @ authentication_token)\<rparr>)
       \<lparr>logged := True\<rparr>"

subsection \<open>Login\<close>

text \<open>The three requests of \<^verbatim>\<open>login\<close> (lines 53--56, 79--83 and 104--113).\<close>

definition userstatus_request :: "account \<Rightarrow> request" where
  "userstatus_request s =
     \<lparr>verb = POST,
      url = ''https://'' @ DYSON_API_URL
            @ ''/v3/userregistration/email/userstatus?country='' @ country s,
      json_body = Some (JObj [(''email'', JStr (email s))]),
      req_headers = headers s\<rparr>"

definition auth_request :: "account \<Rightarrow> request" where
  "auth_request s =
     \<lparr>verb = POST,
      url = ''https://'' @ DYSON_API_URL
            @ ''/v3/userregistration/email/auth?country='' @ country s
            @ ''&culture=en-'' @ country s,
      json_body = Some (JObj [(''email'', JStr (email s))]),
      req_headers = headers s\<rparr>"

definition verify_request :: "account \<Rightarrow> string \<Rightarrow> string \<Rightarrow> request" where
  "verify_request s challenge_id otp =
     \<lparr>verb = POST,
      url = ''https://'' @ DYSON_API_URL
            @ ''/v3/userregistration/email/verify?country='' @ country s,
      json_body = Some (JObj [(''email'', JStr (email s)),
                              (''password'', JStr (password s)),
                              (''challengeId'', JStr challenge_id),
                              (''otpCode'', JStr otp)]),
      req_headers = headers s\<rparr>"

definition otp_prompt :: "account \<Rightarrow> string" where
  "otp_prompt s = ''Input the code sent to you by Dyson at '' @ email s @ '':       ''"

text \<open>
  Line 115 reads \<^verbatim>\<open>login.status_code\<close>, and line 116 \<^verbatim>\<open>login.json()\<close>. The response of
  the verify request is bound to \<^verbatim>\<open>login_response\<close>; the bare name \<^verbatim>\<open>login\<close> is neither
  a local of the method, nor bound at module level (the module binds \<^verbatim>\<open>logging\<close>,
  \<^verbatim>\<open>requests\<close>, \<^verbatim>\<open>HTTPBasicAuth\<close>, the two predicates, the three device classes, the
  exception class, \<^verbatim>\<open>_LOGGER\<close>, \<^verbatim>\<open>DYSON_API_URL\<close> and \<^verbatim>\<open>DysonAccount\<close>), nor a builtin.
  Evaluating it raises \<^verbatim>\<open>NameError\<close>.
\<close>

definition login_name :: "exn + response" where
  "login_name = Inl (NameError ''login'')"

text \<open>Step 3 (lines 100--121): the prompt, the verify request, and the reading of the
  answer through the name \<^verbatim>\<open>login\<close>.\<close>

definition login_step3 :: "env \<Rightarrow> account \<Rightarrow> string \<Rightarrow> event list \<Rightarrow> bool run" where
  "login_step3 world s challenge_id tr =
     (case stdin world (otp_prompt s) of
        Inl e \<Rightarrow> raise e s (tr @ [Input (otp_prompt s)])
      | Inr otp \<Rightarrow>
          (let tr' = tr @ [Input (otp_prompt s), Http (verify_request s challenge_id otp)] in
           case http world (verify_request s challenge_id otp) of
             Inl e \<Rightarrow> raise e s tr'
           | Inr login_response \<Rightarrow>
               (case login_name of
                  Inl e \<Rightarrow> raise e s tr'
                | Inr login \<Rightarrow>
                    if status_code login = 200 then
                      (case json_result login of
                         Inl e \<Rightarrow> raise e s tr'
                       | Inr json_response \<Rightarrow>
                           (case subscript json_response ''token'' of
                              Inl e \<Rightarrow> raise e s tr'
                            | Inr tok \<Rightarrow>
                                (case tok of
                                   JStr t \<Rightarrow>
                                     return (logged (use_authentication_token s t))
                                       (use_authentication_token s t) tr'
                                 | _ \<Rightarrow> raise TypeError s tr')))
                    else return (logged (s\<lparr>logged := False\<rparr>)) (s\<lparr>logged := False\<rparr>) tr')))"

text \<open>Step 2 (lines 76--98): the challenge request, the membership test for
  \<^verbatim>\<open>challengeId\<close>, and the debug message that concatenates it to a \<^verbatim>\<open>str\<close>.\<close>

definition login_step2 :: "env \<Rightarrow> account \<Rightarrow> event list \<Rightarrow> bool run" where
  "login_step2 world s tr =
     (let tr' = tr @ [Http (auth_request s)] in
      case http world (auth_request s) of
        Inl e \<Rightarrow> raise e s tr'
      | Inr challenge_initiate_response \<Rightarrow>
          if status_code challenge_initiate_response = 200 then
            (case json_result challenge_initiate_response of
               Inl e \<Rightarrow> raise e s tr'
             | Inr json_response \<Rightarrow>
                 (case contains ''challengeId'' json_response of
                    Inl e \<Rightarrow> raise e s tr'
                  | Inr present \<Rightarrow>
                      if \<not> present then
                        return (logged (s\<lparr>logged := False\<rparr>)) (s\<lparr>logged := False\<rparr>) tr'
                      else
                        (case subscript json_response ''challengeId'' of
                           Inl e \<Rightarrow> raise e s tr'
                         | Inr challenge_id \<Rightarrow>
                             (case str_add ''Got challengeId: '' challenge_id of
                                Inl e \<Rightarrow> raise e s tr'
                              | Inr msg \<Rightarrow>
                                  (case challenge_id of
                                     JStr cid \<Rightarrow> login_step3 world s cid tr'
                                   | _ \<Rightarrow> raise TypeError s tr')))))
          else return (logged (s\<lparr>logged := False\<rparr>)) (s\<lparr>logged := False\<rparr>) tr')"

text \<open>\<^verbatim>\<open>login\<close> (lines 44--121), from step 1 (lines 46--74): the status request, the
  two comparisons, and the warning that concatenates \<^verbatim>\<open>accountStatus\<close> to a \<^verbatim>\<open>str\<close>.\<close>

definition login :: "env \<Rightarrow> account \<Rightarrow> bool run" where
  "login world s =
     (let tr = [Http (userstatus_request s)] in
      case http world (userstatus_request s) of
        Inl e \<Rightarrow> raise e s tr
      | Inr authentication_type_response \<Rightarrow>
          if status_code authentication_type_response = 200 then
            (case json_result authentication_type_response of
               Inl e \<Rightarrow> raise e s tr
             | Inr json_response \<Rightarrow>
                 (case subscript json_response ''accountStatus'' of
                    Inl e \<Rightarrow> raise e s tr
                  | Inr account_status \<Rightarrow>
                      if account_status \<noteq> JStr ''ACTIVE'' then
                        (case str_add ''Account not ACTIVE, not sure how to proceed, but ''
                                account_status of
                           Inl e \<Rightarrow> raise e s tr
                         | Inr msg \<Rightarrow>
                             return (logged (s\<lparr>logged := False\<rparr>)) (s\<lparr>logged := False\<rparr>) tr)
                      else
                        (case subscript json_response ''authenticationMethod'' of
                           Inl e \<Rightarrow> raise e s tr
                         | Inr authentication_method \<Rightarrow>
                             if authentication_method \<noteq> JStr ''EMAIL_PWD_2FA'' then
                               return (logged (s\<lparr>logged := False\<rparr>)) (s\<lparr>logged := False\<rparr>) tr
                             else login_step2 world s tr)))
          else return (logged (s\<lparr>logged := False\<rparr>)) (s\<lparr>logged := False\<rparr>) tr)"

subsection \<open>Device listing\<close>

text \<open>The three device classes are outside the module; a handle is the class applied
  to the manifest record.\<close>

datatype device =
    Dyson360Eye json
  | DysonPureCoolLink json
  | DysonPureHotCoolLink json

definition manifest_request :: "account \<Rightarrow> request" where
  "manifest_request s =
     \<lparr>verb = GET,
      url = ''https://'' @ DYSON_API_URL @ ''/v1/provisioningservice/manifest'',
      json_body = None,
      req_headers = headers s\<rparr>"

text \<open>The loop of lines 129--137 over the records still to visit, with the list built
  so far. The predicates \<^verbatim>\<open>is_360_eye_device\<close> and \<^verbatim>\<open>is_heating_device\<close> come from
  \<^verbatim>\<open>utils\<close> and are parameters.\<close>

fun devices_loop ::
  "(json \<Rightarrow> bool) \<Rightarrow> (json \<Rightarrow> bool) \<Rightarrow> json list \<Rightarrow> device list \<Rightarrow> device list" where
  "devices_loop is_360_eye_device is_heating_device [] devices = devices"
| "devices_loop is_360_eye_device is_heating_device (device # rest) devices =
     devices_loop is_360_eye_device is_heating_device rest
       (devices @
         [if is_360_eye_device device then Dyson360Eye device
          else if is_heating_device device then DysonPureHotCoolLink device
          else DysonPureCoolLink device])"

text \<open>\<^verbatim>\<open>devices\<close> (lines 123--142).\<close>

definition devices ::
  "(json \<Rightarrow> bool) \<Rightarrow> (json \<Rightarrow> bool) \<Rightarrow> env \<Rightarrow> account \<Rightarrow> device list run" where
  "devices is_360_eye_device is_heating_device world s =
     (if logged s then
        (let tr = [Http (manifest_request s)] in
         case http world (manifest_request s) of
           Inl e \<Rightarrow> raise e s tr
         | Inr device_response \<Rightarrow>
             (case json_result device_response of
                Inl e \<Rightarrow> raise e s tr
              | Inr manifest \<Rightarrow>
                  (case iterate manifest of
                     Inl e \<Rightarrow> raise e s tr
                   | Inr records \<Rightarrow>
                       return (devices_loop is_360_eye_device is_heating_device records [])
                         s tr)))
      else raise DysonNotLoggedException s [])"

text \<open>The \<^verbatim>\<open>logged\<close> property (lines 144--147) is the field \<^const>\<open>logged\<close>.\<close>

subsection \<open>Reachable sessions\<close>

text \<open>The sessions a caller can hold: a freshly constructed one, and the session left
  by any method call on a reachable one, whether the call returned or raised, whatever
  the collaborators answered.\<close>

inductive reachable :: "account \<Rightarrow> bool" where
  created: "reachable (DysonAccount_init email_arg password_arg country_arg)"
| token: "reachable s \<Longrightarrow> reachable (use_authentication_token s authentication_token)"
| logged_in: "reachable s \<Longrightarrow> reachable (after (login world s))"
| listed: "reachable s \<Longrightarrow>
     reachable (after (devices is_360_eye_device is_heating_device world s))"

subsection \<open>Scripted collaborators for the concrete runs\<close>

text \<open>A world that answers each URL from a table (and raises for any other URL), and
  returns one fixed line from the terminal.\<close>

definition scripted :: "(string \<times> (exn + response)) list \<Rightarrow> (exn + string) \<Rightarrow> env" where
  "scripted answers typed =
     \<lparr>http = (\<lambda>rq. case map_of answers (url rq) of
                       None \<Rightarrow> Inl RequestException
                     | Some a \<Rightarrow> a),
      stdin = (\<lambda>p. typed)\<rparr>"

definition answer :: "int \<Rightarrow> json \<Rightarrow> exn + response" where
  "answer code j = Inr \<lparr>status_code = code, json_result = Inr j\<rparr>"

definition demo_account :: account where
  "demo_account = DysonAccount_init ''user@example.com'' ''secret'' ''US''"

definition token_account :: account where
  "token_account = use_authentication_token demo_account ''tok''"

definition userstatus_US :: string where
  "userstatus_US =
     ''https://appapi.cp.dyson.com/v3/userregistration/email/userstatus?country=US''"

definition auth_US :: string where
  "auth_US =
     ''https://appapi.cp.dyson.com/v3/userregistration/email/auth?country=US&culture=en-US''"

definition verify_US :: string where
  "verify_US = ''https://appapi.cp.dyson.com/v3/userregistration/email/verify?country=US''"

definition manifest_url :: string where
  "manifest_url = ''https://appapi.cp.dyson.com/v1/provisioningservice/manifest''"

definition status_active :: json where
  "status_active = JObj [(''accountStatus'', JStr ''ACTIVE''),
                         (''authenticationMethod'', JStr ''EMAIL_PWD_2FA'')]"

text \<open>Three answers with status 200 and every expected field.\<close>

definition world_accepting :: env where
  "world_accepting = scripted
     [(userstatus_US, answer 200 status_active),
      (auth_US, answer 200 (JObj [(''challengeId'', JStr ''e6ff5f3f'')])),
      (verify_US, answer 200 (JObj [(''account'', JStr ''a1''), (''token'', JStr ''tok'')]))]
     (Inr ''123456'')"

text \<open>The verify request is answered with status 401.\<close>

definition world_wrong_code :: env where
  "world_wrong_code = scripted
     [(userstatus_US, answer 200 status_active),
      (auth_US, answer 200 (JObj [(''challengeId'', JStr ''e6ff5f3f'')])),
      (verify_US, answer 401 (JObj [(''Message'', JStr ''Unauthorized'')]))]
     (Inr ''000000'')"

text \<open>The status request is answered with status 200 and an object without
  \<^verbatim>\<open>accountStatus\<close>, or without \<^verbatim>\<open>authenticationMethod\<close>.\<close>

definition world_bare_status :: env where
  "world_bare_status = scripted [(userstatus_US, answer 200 (JObj []))] (Inr ''123456'')"

definition world_no_method :: env where
  "world_no_method = scripted
     [(userstatus_US, answer 200 (JObj [(''accountStatus'', JStr ''ACTIVE'')]))]
     (Inr ''123456'')"

text \<open>The status request is answered with status 200 and an \<^verbatim>\<open>accountStatus\<close> that
  is JSON \<^verbatim>\<open>null\<close>.\<close>

definition world_null_status :: env where
  "world_null_status = scripted
     [(userstatus_US, answer 200 (JObj [(''accountStatus'', JNull),
                                         (''authenticationMethod'', JStr ''EMAIL_PWD_2FA'')]))]
     (Inr ''123456'')"

definition world_down :: env where
  "world_down = scripted [(userstatus_US, answer 503 JNull)] (Inr ''123456'')"

text \<open>A session that installed a token and then ran a login that failed.\<close>

definition stale_account :: account where
  "stale_account = after (login world_down token_account)"

text \<open>Stand-ins for the two predicates (a record is a vacuum when it has the key
  \<^verbatim>\<open>eye\<close>, heating when it has the key \<^verbatim>\<open>heat\<close>), and a manifest whose fourth record
  satisfies both.\<close>

definition marked :: "string \<Rightarrow> json \<Rightarrow> bool" where
  "marked key device = (contains key device = Inr True)"

definition demo_manifest :: "json list" where
  "demo_manifest =
     [JObj [(''Serial'', JStr ''A''), (''eye'', JBool True)],
      JObj [(''Serial'', JStr ''B''), (''heat'', JBool True)],
      JObj [(''Serial'', JStr ''C'')],
      JObj [(''Serial'', JStr ''D''), (''heat'', JBool True), (''eye'', JBool True)]]"

definition world_manifest :: "json \<Rightarrow> env" where
  "world_manifest j = scripted [(manifest_url, answer 200 j)] (Inr [])"

section \<open>Properties\<close>

lemmas model_defs =
  login_def login_step2_def login_step3_def login_name_def
  userstatus_request_def auth_request_def verify_request_def otp_prompt_def
  DYSON_API_URL_def subscript_def contains_def str_add_def raise_def return_def

lemmas fixture_defs =
  scripted_def answer_def demo_account_def DysonAccount_init_def status_active_def
  userstatus_US_def auth_US_def verify_US_def manifest_url_def

subsection \<open>What every run of login does\<close>

text \<open>Step 3 never returns: whatever the terminal and the server answer, it ends in
  an exception and leaves the session as it was.\<close>

lemma login_step3_after: "after (login_step3 world s cid tr) = s"
  by (simp add: login_step3_def login_name_def raise_def Let_def split: sum.splits)

lemma login_step3_raises: "\<exists>e. outcome (login_step3 world s cid tr) = Inl e"
  by (simp add: login_step3_def login_name_def raise_def Let_def split: sum.splits)

lemma login_step3_trace: "\<exists>ext. trace (login_step3 world s cid tr) = tr @ ext"
  by (simp add: login_step3_def login_name_def raise_def Let_def split: sum.splits)

lemma login_step2_after:
  "after (login_step2 world s tr) = s \<or> after (login_step2 world s tr) = s\<lparr>logged := False\<rparr>"
  by (simp add: login_step2_def raise_def return_def Let_def login_step3_after
        split: sum.splits json.splits)

lemma login_step2_not_True: "outcome (login_step2 world s tr) \<noteq> Inr True"
  using login_step3_raises [of world s _ "tr @ [Http (auth_request s)]"]
  apply (simp add: login_step2_def raise_def return_def Let_def
           split: sum.splits json.splits)
  by (metis Inl_Inr_False)

lemma login_step2_trace:
  "\<exists>ext. trace (login_step2 world s tr) = tr @ Http (auth_request s) # ext"
  using login_step3_trace [of world s _ "tr @ [Http (auth_request s)]"]
  by (auto simp add: login_step2_def raise_def return_def Let_def
        split: sum.splits json.splits)

text \<open>A login either leaves the session untouched (when it raises) or only clears the
  flag; it never returns \<^verbatim>\<open>True\<close>.\<close>

lemma login_after:
  "after (login world s) = s \<or> after (login world s) = s\<lparr>logged := False\<rparr>"
  using login_step2_after [of world s "[Http (userstatus_request s)]"]
  by (simp add: login_def raise_def return_def Let_def split: sum.splits)

lemma login_not_True: "outcome (login world s) \<noteq> Inr True"
  using login_step2_not_True [of world s "[Http (userstatus_request s)]"]
  by (simp add: login_def raise_def return_def Let_def split: sum.splits)

subsection \<open>Responses with a status other than 200\<close>

text \<open>At step 1 and at step 2 a status other than 200 clears the flag and returns
  \<^verbatim>\<open>False\<close>, with no further call.\<close>

lemma login_userstatus_non200:
  assumes "http world (userstatus_request s) = Inr r" and "status_code r \<noteq> 200"
  shows "login world s = return False (s\<lparr>logged := False\<rparr>) [Http (userstatus_request s)]"
  using assms by (simp add: login_def)

lemma login_auth_non200:
  assumes "http world (userstatus_request s) = Inr r1" and "status_code r1 = 200"
    and "json_result r1 = Inr j1"
    and "subscript j1 ''accountStatus'' = Inr (JStr ''ACTIVE'')"
    and "subscript j1 ''authenticationMethod'' = Inr (JStr ''EMAIL_PWD_2FA'')"
    and "http world (auth_request s) = Inr r2" and "status_code r2 \<noteq> 200"
  shows "login world s = return False (s\<lparr>logged := False\<rparr>)
           [Http (userstatus_request s), Http (auth_request s)]"
  using assms by (simp add: login_def login_step2_def)

text \<open>At step 3 the status is never read: once the verify request is answered, with
  any status and any body, the call raises \<^verbatim>\<open>NameError\<close>.\<close>

lemma login_verify_answered:
  assumes "http world (userstatus_request s) = Inr r1" and "status_code r1 = 200"
    and "json_result r1 = Inr j1"
    and "subscript j1 ''accountStatus'' = Inr (JStr ''ACTIVE'')"
    and "subscript j1 ''authenticationMethod'' = Inr (JStr ''EMAIL_PWD_2FA'')"
    and "http world (auth_request s) = Inr r2" and "status_code r2 = 200"
    and "json_result r2 = Inr (JObj items)" and "map_of items ''challengeId'' = Some (JStr cid)"
    and "stdin world (otp_prompt s) = Inr otp"
    and "http world (verify_request s cid otp) = Inr r3"
  shows "login world s = raise (NameError ''login'') s
           [Http (userstatus_request s), Http (auth_request s),
            Input (otp_prompt s), Http (verify_request s cid otp)]"
proof -
  from assms(9) have "(''challengeId'', JStr cid) \<in> set items" by (rule map_of_SomeD)
  then have "''challengeId'' \<in> fst ` set items" by force
  with assms show ?thesis
    by (simp add: login_def login_step2_def login_step3_def login_name_def
          subscript_def contains_def str_add_def)
qed

text \<open>
  C1. The property asks that a status other than 200 at any of the three steps makes
  \<^verbatim>\<open>login\<close> return \<^verbatim>\<open>False\<close> without an exception. It holds at steps 1 and 2 (the two
  lemmas on those steps above). At step 3 it fails: for the session of
  \<^verbatim>\<open>user@example.com\<close> in country \<^verbatim>\<open>US\<close>, with steps 1 and 2 answered as expected, the
  code \<^verbatim>\<open>000000\<close> typed and the verify request answered with status 401, the call
  raises \<^verbatim>\<open>NameError\<close> for the name \<^verbatim>\<open>login\<close>.
\<close>

theorem login_verify_non200_raises:
  "http world_wrong_code (verify_request demo_account ''e6ff5f3f'' ''000000'')
     = Inr \<lparr>status_code = 401,
            json_result = Inr (JObj [(''Message'', JStr ''Unauthorized'')])\<rparr>
   \<and> outcome (login world_wrong_code demo_account) = Inl (NameError ''login'')"
  by (simp add: model_defs fixture_defs world_wrong_code_def)

text \<open>
  C2. The property asks that three answers with status 200 and the expected fields make
  \<^verbatim>\<open>login\<close> return \<^verbatim>\<open>True\<close> and install the header \<^verbatim>\<open>Authorization: Bearer <token>\<close>. On
  such a sequence the call raises \<^verbatim>\<open>NameError\<close> for the name \<^verbatim>\<open>login\<close>; the flag stays
  false and no \<^verbatim>\<open>Authorization\<close> header is installed.
\<close>

theorem login_full_sequence_raises:
  "outcome (login world_accepting demo_account) = Inl (NameError ''login'')
   \<and> \<not> logged (after (login world_accepting demo_account))
   \<and> headers (after (login world_accepting demo_account)) ''Authorization'' = None"
  by (simp add: model_defs fixture_defs world_accepting_def)

subsection \<open>Responses that miss a field\<close>

text \<open>Step 2 tests for its field before reading it: an object without \<^verbatim>\<open>challengeId\<close>
  clears the flag and returns \<^verbatim>\<open>False\<close>.\<close>

lemma login_auth_missing_challengeId:
  assumes "http world (userstatus_request s) = Inr r1" and "status_code r1 = 200"
    and "json_result r1 = Inr j1"
    and "subscript j1 ''accountStatus'' = Inr (JStr ''ACTIVE'')"
    and "subscript j1 ''authenticationMethod'' = Inr (JStr ''EMAIL_PWD_2FA'')"
    and "http world (auth_request s) = Inr r2" and "status_code r2 = 200"
    and "json_result r2 = Inr (JObj items)" and "map_of items ''challengeId'' = None"
  shows "login world s = return False (s\<lparr>logged := False\<rparr>)
           [Http (userstatus_request s), Http (auth_request s)]"
proof -
  from assms(9) have "''challengeId'' \<notin> fst ` set items"
    by (simp add: map_of_eq_None_iff)
  with assms show ?thesis
    by (simp add: login_def login_step2_def contains_def)
qed

text \<open>
  C3. The property asks that a 200 answer without a required field makes \<^verbatim>\<open>login\<close>
  return \<^verbatim>\<open>False\<close> without an exception, at each step. Step 2 does so (the lemma
  above). Step 1 reads both fields by subscript with no test: an empty object raises
  \<^verbatim>\<open>KeyError\<close> for \<^verbatim>\<open>accountStatus\<close>, and an \<^verbatim>\<open>ACTIVE\<close> object without
  \<^verbatim>\<open>authenticationMethod\<close> raises \<^verbatim>\<open>KeyError\<close> for that field; the session is left as
  it was.
\<close>

theorem login_missing_field_raises:
  "outcome (login world_bare_status demo_account) = Inl (KeyError ''accountStatus'')
   \<and> outcome (login world_no_method demo_account) = Inl (KeyError ''authenticationMethod'')
   \<and> after (login world_bare_status demo_account) = demo_account"
  by (simp add: model_defs fixture_defs world_bare_status_def world_no_method_def)

subsection \<open>Unexpected account status or authentication method\<close>

text \<open>Whatever JSON value a 200 answer at step 1 carries, unless it is an object with
  \<^verbatim>\<open>accountStatus\<close> equal to \<^verbatim>\<open>ACTIVE\<close> and \<^verbatim>\<open>authenticationMethod\<close> equal to
  \<^verbatim>\<open>EMAIL_PWD_2FA\<close>, the status request is the only call made: there is no prompt and
  no further request, whether the call returns or raises.\<close>

lemma login_stops_after_userstatus:
  assumes "http world (userstatus_request s) = Inr r" and "status_code r = 200"
    and "json_result r = Inr j"
    and "subscript j ''accountStatus'' \<noteq> Inr (JStr ''ACTIVE'')
         \<or> subscript j ''authenticationMethod'' \<noteq> Inr (JStr ''EMAIL_PWD_2FA'')"
  shows "trace (login world s) = [Http (userstatus_request s)]
       \<and> outcome (login world s) \<noteq> Inr True"
  using assms
  by (auto simp add: login_def raise_def return_def Let_def split: sum.splits)

text \<open>An \<^verbatim>\<open>accountStatus\<close> that is not a \<^verbatim>\<open>str\<close> differs from \<^verbatim>\<open>ACTIVE\<close>, and the
  warning of line 63 then concatenates it to a \<^verbatim>\<open>str\<close>: the call raises \<^verbatim>\<open>TypeError\<close>
  in place of returning.\<close>

lemma login_status_not_str:
  assumes "http world (userstatus_request s) = Inr r" and "status_code r = 200"
    and "json_result r = Inr (JObj items)"
    and "map_of items ''accountStatus'' = Some v" and "\<And>a. v \<noteq> JStr a"
  shows "login world s = raise TypeError s [Http (userstatus_request s)]"
proof (cases v)
  case (JStr a)
  with assms(5) show ?thesis by blast
qed (use assms in \<open>simp_all add: login_def subscript_def str_add_def\<close>)

text \<open>An \<^verbatim>\<open>accountStatus\<close> that is a \<^verbatim>\<open>str\<close> other than \<^verbatim>\<open>ACTIVE\<close>, or the status
  \<^verbatim>\<open>ACTIVE\<close> with an \<^verbatim>\<open>authenticationMethod\<close> of any value other than \<^verbatim>\<open>EMAIL_PWD_2FA\<close>,
  clears the flag and returns \<^verbatim>\<open>False\<close>, and the status request is the only call
  made.\<close>

lemma login_string_status_aborts:
  assumes "http world (userstatus_request s) = Inr r" and "status_code r = 200"
    and "json_result r = Inr (JObj items)"
    and "map_of items ''accountStatus'' = Some (JStr a)"
    and "a \<noteq> ''ACTIVE''
         \<or> (\<exists>m. map_of items ''authenticationMethod'' = Some m \<and> m \<noteq> JStr ''EMAIL_PWD_2FA'')"
  shows "login world s = return False (s\<lparr>logged := False\<rparr>) [Http (userstatus_request s)]"
  using assms
  by (auto simp add: login_def subscript_def str_add_def Let_def)

text \<open>
  C4. The property asks that a 200 answer at step 1 reporting an \<^verbatim>\<open>accountStatus\<close>
  other than \<^verbatim>\<open>ACTIVE\<close> makes \<^verbatim>\<open>login\<close> return \<^verbatim>\<open>False\<close> before the prompt and before any
  further request. No prompt and no further request happen on any such answer, and a
  \<^verbatim>\<open>str\<close> status returns \<^verbatim>\<open>False\<close> (the lemmas above on this step). The return
  fails for a status that is not a \<^verbatim>\<open>str\<close>: for the session of \<^verbatim>\<open>user@example.com\<close> in
  country \<^verbatim>\<open>US\<close> and the answer 200 with \<^verbatim>\<open>accountStatus\<close> \<^verbatim>\<open>null\<close> and
  \<^verbatim>\<open>authenticationMethod\<close> \<^verbatim>\<open>EMAIL_PWD_2FA\<close>, the warning of line 63 raises \<^verbatim>\<open>TypeError\<close>
  and the call does not return \<^verbatim>\<open>False\<close>. The branch for \<^verbatim>\<open>authenticationMethod\<close>
  (lines 66--69) logs a fixed message and returns \<^verbatim>\<open>False\<close> for a value of any type.
\<close>

theorem login_null_status_raises:
  "http world_null_status (userstatus_request demo_account)
     = Inr \<lparr>status_code = 200,
            json_result = Inr (JObj [(''accountStatus'', JNull),
                                     (''authenticationMethod'', JStr ''EMAIL_PWD_2FA'')])\<rparr>
   \<and> outcome (login world_null_status demo_account) = Inl TypeError
   \<and> outcome (login world_null_status demo_account) \<noteq> Inr False"
  by (simp add: model_defs fixture_defs world_null_status_def)

subsection \<open>The challenge request\<close>

text \<open>
  C8. In every session, once the status request is answered with status 200, \<^verbatim>\<open>ACTIVE\<close>
  and \<^verbatim>\<open>EMAIL_PWD_2FA\<close>, \<^verbatim>\<open>login\<close> makes a second call, and that call is the challenge
  request: a POST whose JSON body has the single field \<^verbatim>\<open>email\<close>, to the URL
  \<^verbatim>\<open>https://appapi.cp.dyson.com/v3/userregistration/email/auth\<close> with the query
  \<^verbatim>\<open>country=<cc>&culture=en-<cc>\<close>, where both \<^verbatim>\<open><cc>\<close> are the session's country code.
\<close>

theorem challenge_request_sent:
  assumes "http world (userstatus_request s) = Inr r" and "status_code r = 200"
    and "json_result r = Inr (JObj items)"
    and "map_of items ''accountStatus'' = Some (JStr ''ACTIVE'')"
    and "map_of items ''authenticationMethod'' = Some (JStr ''EMAIL_PWD_2FA'')"
  shows "1 < length (trace (login world s))
       \<and> trace (login world s) ! 0 = Http (userstatus_request s)
       \<and> trace (login world s) ! 1 =
           Http \<lparr>verb = POST,
                 url = ''https://appapi.cp.dyson.com/v3/userregistration/email/auth?country=''
                       @ country s @ ''&culture=en-'' @ country s,
                 json_body = Some (JObj [(''email'', JStr (email s))]),
                 req_headers = headers s\<rparr>"
proof -
  obtain ext where e: "trace (login_step2 world s [Http (userstatus_request s)])
                       = [Http (userstatus_request s)] @ Http (auth_request s) # ext"
    using login_step2_trace by blast
  from assms have "login world s = login_step2 world s [Http (userstatus_request s)]"
    by (simp add: login_def subscript_def)
  with e have "trace (login world s) = Http (userstatus_request s) # Http (auth_request s) # ext"
    by simp
  then show ?thesis by (simp add: auth_request_def DYSON_API_URL_def)
qed

text \<open>The theorem on the session of \<^verbatim>\<open>user@example.com\<close> in the country \<^verbatim>\<open>US\<close>.\<close>

theorem challenge_request_sent_witness:
  "1 < length (trace (login world_accepting demo_account))
   \<and> trace (login world_accepting demo_account) ! 0 = Http (userstatus_request demo_account)
   \<and> trace (login world_accepting demo_account) ! 1 =
       Http \<lparr>verb = POST,
             url = ''https://appapi.cp.dyson.com/v3/userregistration/email/auth?country=US&culture=en-US'',
             json_body = Some (JObj [(''email'', JStr ''user@example.com'')]),
             req_headers = headers demo_account\<rparr>"
proof -
  let ?items = "[(''accountStatus'', JStr ''ACTIVE''),
                 (''authenticationMethod'', JStr ''EMAIL_PWD_2FA'')]"
  let ?r = "\<lparr>status_code = 200, json_result = Inr (JObj ?items)\<rparr>"
  have 1: "http world_accepting (userstatus_request demo_account) = Inr ?r"
    by (simp add: world_accepting_def fixture_defs userstatus_request_def DYSON_API_URL_def)
  have 2: "status_code ?r = 200" by simp
  have 3: "json_result ?r = Inr (JObj ?items)" by simp
  have 4: "map_of ?items ''accountStatus'' = Some (JStr ''ACTIVE'')" by simp
  have 5: "map_of ?items ''authenticationMethod'' = Some (JStr ''EMAIL_PWD_2FA'')" by simp
  have c: "country demo_account = ''US''" "email demo_account = ''user@example.com''"
    by (simp_all add: fixture_defs)
  from challenge_request_sent [OF 1 2 3 4 5] c show ?thesis by simp
qed

subsection \<open>Device listing\<close>

text \<open>The loop appends one handle per record, in the order of the records.\<close>

lemma devices_loop_append:
  "devices_loop p q records acc =
     acc @ map (\<lambda>d. if p d then Dyson360Eye d
                     else if q d then DysonPureHotCoolLink d
                     else DysonPureCoolLink d) records"
  by (induction records arbitrary: acc) simp_all

lemma devices_after: "after (devices p q world s) = s"
  by (simp add: devices_def raise_def return_def Let_def split: sum.splits)

lemma token_account_logged: "logged token_account"
  by (simp add: token_account_def use_authentication_token_def)

lemma world_manifest_answers:
  "http (world_manifest j) (manifest_request s)
     = Inr \<lparr>status_code = 200, json_result = Inr j\<rparr>"
  by (simp add: world_manifest_def scripted_def answer_def manifest_url_def
        manifest_request_def DYSON_API_URL_def)

text \<open>
  C5. In every session whose flag \<^verbatim>\<open>logged\<close> is false, \<^verbatim>\<open>devices\<close> raises
  \<^verbatim>\<open>DysonNotLoggedException\<close>, makes no request (the trace is empty), and so returns no
  list, in particular not the empty one.
\<close>

theorem devices_not_logged:
  assumes "\<not> logged s"
  shows "outcome (devices is_360_eye_device is_heating_device world s)
           = Inl DysonNotLoggedException
       \<and> trace (devices is_360_eye_device is_heating_device world s) = []
       \<and> outcome (devices is_360_eye_device is_heating_device world s) \<noteq> Inr []"
  using assms by (simp add: devices_def raise_def)

text \<open>The theorem on a freshly constructed session, with a server that would answer
  with an empty manifest.\<close>

theorem devices_not_logged_witness:
  "\<not> logged demo_account
   \<and> outcome (devices (marked ''eye'') (marked ''heat'') (world_manifest (JArr [])) demo_account)
       = Inl DysonNotLoggedException
   \<and> trace (devices (marked ''eye'') (marked ''heat'') (world_manifest (JArr [])) demo_account) = []
   \<and> outcome (devices (marked ''eye'') (marked ''heat'') (world_manifest (JArr [])) demo_account)
       \<noteq> Inr []"
proof -
  have h: "\<not> logged demo_account" by (simp add: fixture_defs)
  from devices_not_logged [OF h] h show ?thesis by blast
qed

text \<open>
  C6. In a logged session whose manifest request is answered with a JSON array,
  \<^verbatim>\<open>devices\<close> returns one handle per record, in the order of the array; the handle of a
  record is a \<^verbatim>\<open>Dyson360Eye\<close> when the vacuum predicate holds, else a
  \<^verbatim>\<open>DysonPureHotCoolLink\<close> when the heating predicate holds, else a
  \<^verbatim>\<open>DysonPureCoolLink\<close>. In particular a record on which both predicates hold gives a
  \<^verbatim>\<open>Dyson360Eye\<close>.
\<close>

theorem devices_classified_in_order:
  assumes "logged s"
    and "http world (manifest_request s) = Inr r"
    and "json_result r = Inr (JArr records)"
  shows "\<exists>ds. outcome (devices is_360_eye_device is_heating_device world s) = Inr ds
            \<and> ds = map (\<lambda>device.
                          if is_360_eye_device device then Dyson360Eye device
                          else if is_heating_device device then DysonPureHotCoolLink device
                          else DysonPureCoolLink device) records
            \<and> (\<forall>i < length records.
                  is_360_eye_device (records ! i) \<and> is_heating_device (records ! i) \<longrightarrow>
                  ds ! i = Dyson360Eye (records ! i))"
  using assms
  by (simp add: devices_def iterate_def return_def devices_loop_append)

text \<open>The theorem on a manifest of a vacuum, a heater, a plain fan, and a record that
  is marked as both vacuum and heater.\<close>

theorem devices_classified_in_order_witness:
  "logged token_account
   \<and> marked ''eye'' (demo_manifest ! 3) \<and> marked ''heat'' (demo_manifest ! 3)
   \<and> outcome (devices (marked ''eye'') (marked ''heat'') (world_manifest (JArr demo_manifest))
                token_account)
       = Inr [Dyson360Eye (JObj [(''Serial'', JStr ''A''), (''eye'', JBool True)]),
              DysonPureHotCoolLink (JObj [(''Serial'', JStr ''B''), (''heat'', JBool True)]),
              DysonPureCoolLink (JObj [(''Serial'', JStr ''C'')]),
              Dyson360Eye (JObj [(''Serial'', JStr ''D''), (''heat'', JBool True),
                                 (''eye'', JBool True)])]"
proof -
  let ?r = "\<lparr>status_code = 200, json_result = Inr (JArr demo_manifest)\<rparr>"
  have 3: "json_result ?r = Inr (JArr demo_manifest)" by simp
  have both: "marked ''eye'' (demo_manifest ! 3) \<and> marked ''heat'' (demo_manifest ! 3)"
    by (simp add: demo_manifest_def marked_def contains_def)
  from devices_classified_in_order [OF token_account_logged world_manifest_answers 3,
      of "marked ''eye''" "marked ''heat''"]
  have "outcome (devices (marked ''eye'') (marked ''heat'') (world_manifest (JArr demo_manifest))
                token_account)
       = Inr [Dyson360Eye (JObj [(''Serial'', JStr ''A''), (''eye'', JBool True)]),
              DysonPureHotCoolLink (JObj [(''Serial'', JStr ''B''), (''heat'', JBool True)]),
              DysonPureCoolLink (JObj [(''Serial'', JStr ''C'')]),
              Dyson360Eye (JObj [(''Serial'', JStr ''D''), (''heat'', JBool True),
                                 (''eye'', JBool True)])]"
    by (simp add: demo_manifest_def marked_def contains_def)
  with token_account_logged both show ?thesis by blast
qed

text \<open>
  C9. In a logged session whose manifest request is answered with a JSON array,
  \<^verbatim>\<open>devices\<close> returns a list as long as the array; for the empty array it returns the
  empty list.
\<close>

theorem devices_empty_or_same_length:
  assumes "logged s"
    and "http world (manifest_request s) = Inr r"
    and "json_result r = Inr (JArr records)"
  shows "(\<exists>ds. outcome (devices is_360_eye_device is_heating_device world s) = Inr ds
              \<and> length ds = length records)
       \<and> (records = [] \<longrightarrow>
             outcome (devices is_360_eye_device is_heating_device world s) = Inr [])"
  using assms
  by (simp add: devices_def iterate_def return_def devices_loop_append)

text \<open>The theorem on the empty manifest and on a manifest of four records.\<close>

theorem devices_empty_or_same_length_witness:
  "logged token_account
   \<and> outcome (devices (marked ''eye'') (marked ''heat'') (world_manifest (JArr [])) token_account)
       = Inr []
   \<and> (\<exists>ds. outcome (devices (marked ''eye'') (marked ''heat'')
                       (world_manifest (JArr demo_manifest)) token_account) = Inr ds
            \<and> length ds = 4)"
proof -
  let ?r0 = "\<lparr>status_code = 200, json_result = Inr (JArr [])\<rparr>"
  let ?r4 = "\<lparr>status_code = 200, json_result = Inr (JArr demo_manifest)\<rparr>"
  have e: "json_result ?r0 = Inr (JArr [])" by simp
  have f: "json_result ?r4 = Inr (JArr demo_manifest)" by simp
  have n: "length demo_manifest = 4" by (simp add: demo_manifest_def)
  from devices_empty_or_same_length [OF token_account_logged world_manifest_answers e,
      of "marked ''eye''" "marked ''heat''"]
  have "outcome (devices (marked ''eye'') (marked ''heat'') (world_manifest (JArr []))
                  token_account) = Inr []"
    by simp
  moreover
  from devices_empty_or_same_length [OF token_account_logged world_manifest_answers f,
      of "marked ''eye''" "marked ''heat''"] n
  have "\<exists>ds. outcome (devices (marked ''eye'') (marked ''heat'')
                       (world_manifest (JArr demo_manifest)) token_account) = Inr ds
            \<and> length ds = 4"
    by simp
  ultimately show ?thesis using token_account_logged by blast
qed

text \<open>
  C10. A call of \<^verbatim>\<open>devices\<close>, whether it returns a list or raises, leaves the session's
  email, password, country, flag and headers as they were.
\<close>

theorem devices_keeps_session:
  "email (after (devices is_360_eye_device is_heating_device world s)) = email s
   \<and> password (after (devices is_360_eye_device is_heating_device world s)) = password s
   \<and> country (after (devices is_360_eye_device is_heating_device world s)) = country s
   \<and> logged (after (devices is_360_eye_device is_heating_device world s)) = logged s
   \<and> headers (after (devices is_360_eye_device is_heating_device world s)) = headers s"
  by (simp add: devices_def raise_def return_def Let_def split: sum.splits)

subsection \<open>The flag and the bearer token\<close>

text \<open>
  C7, as the code has it. In every reachable session whose flag \<^verbatim>\<open>logged\<close> is true, the
  headers hold an \<^verbatim>\<open>Authorization\<close> entry of the form \<^verbatim>\<open>Bearer <token>\<close>. The converse
  is not kept: no method removes the entry, and a failing login clears the flag only.
\<close>

theorem logged_implies_bearer:
  assumes "reachable s" and "logged s"
  shows "\<exists>t. headers s ''Authorization'' = Some (''Bearer '' @ t)"
  using assms
proof (induction rule: reachable.induct)
  case (created email_arg password_arg country_arg)
  then show ?case by (simp add: DysonAccount_init_def)
next
  case (token s authentication_token)
  then show ?case by (simp add: use_authentication_token_def)
next
  case (logged_in s world)
  from login_after [of world s] logged_in.prems
  have "after (login world s) = s" by auto
  with logged_in show ?case by simp
next
  case (listed s is_360_eye_device is_heating_device world)
  then show ?case by (simp add: devices_after)
qed

text \<open>The theorem on a session in which a token was installed.\<close>

theorem logged_implies_bearer_witness:
  "reachable token_account \<and> logged token_account
   \<and> (\<exists>t. headers token_account ''Authorization'' = Some (''Bearer '' @ t))"
proof -
  have r: "reachable token_account"
    unfolding token_account_def demo_account_def by (intro reachable.token reachable.created)
  have l: "logged token_account"
    by (simp add: token_account_def use_authentication_token_def)
  from logged_implies_bearer [OF r l] r l show ?thesis by blast
qed

text \<open>
  C7, as stated, fails from right to left. After a token is installed and a login is
  then answered with status 503 at step 1, the session is reachable, its flag is false,
  and its headers still hold \<^verbatim>\<open>Authorization: Bearer tok\<close>.
\<close>

theorem bearer_without_logged:
  "reachable stale_account
   \<and> \<not> logged stale_account
   \<and> headers stale_account ''Authorization'' = Some ''Bearer tok''"
proof -
  have "reachable token_account"
    unfolding token_account_def demo_account_def by (intro reachable.token reachable.created)
  then have "reachable stale_account"
    unfolding stale_account_def by (rule reachable.logged_in)
  moreover have "\<not> logged stale_account"
    by (simp add: stale_account_def token_account_def use_authentication_token_def
          world_down_def model_defs fixture_defs)
  moreover have "headers stale_account ''Authorization'' = Some ''Bearer tok''"
    by (simp add: stale_account_def token_account_def use_authentication_token_def
          world_down_def model_defs fixture_defs)
  ultimately show ?thesis by blast
qed

end
